theory Spec2Isabelle
  imports Complex_Main
begin

section \<open>Data_pre_processing.py: GeoTIFF and ground-truth extraction\<close>

text \<open>
  A shallow embedding of \<^verbatim>\<open>MLMODELPY/Data_pre_processing.py\<close>. Python floats are
  idealised as reals; every exception the script can meet is a value of \<open>error\<close>.
  The libraries the script calls (affine, rasterio, numpy, pandas) are embedded by the
  part of their behaviour the script relies on; the file system and the pyproj
  reprojection are parameters collected in the record \<open>env\<close>.
\<close>

subsection \<open>Exceptions\<close>

datatype error =
    RasterioIOError
  | FileNotFoundError
  | TransformNotInvertibleError
  | IndexError
  | KeyError
  | ValueError

subsection \<open>The affine package\<close>

text \<open>
  \<^verbatim>\<open>Affine(a, b, c, d, e, f)\<close> is the matrix with rows \<open>(a, b, c)\<close>, \<open>(d, e, f)\<close> and
  \<open>(0, 0, 1)\<close>. \<^verbatim>\<open>t * (x, y)\<close> applies it to a point, \<^verbatim>\<open>t * u\<close> is the matrix
  product and \<^verbatim>\<open>~t\<close> the inverse, which raises on a degenerate transform.
\<close>

datatype affine = Affine real real real real real real

fun affine_apply :: "affine \<Rightarrow> real \<times> real \<Rightarrow> real \<times> real" where
  "affine_apply (Affine sa sb sc sd se sf) (vx, vy) =
     (vx * sa + vy * sb + sc, vx * sd + vy * se + sf)"

fun affine_mul :: "affine \<Rightarrow> affine \<Rightarrow> affine" where
  "affine_mul (Affine sa sb sc sd se sf) (Affine oa ob oc od oe of') =
     Affine (sa * oa + sb * od) (sa * ob + sb * oe) (sa * oc + sb * of' + sc)
            (sd * oa + se * od) (sd * ob + se * oe) (sd * oc + se * of' + sf)"

definition scale :: "real \<Rightarrow> affine" where
  "scale s = Affine s 0 0 0 s 0"

fun determinant :: "affine \<Rightarrow> real" where
  "determinant (Affine sa sb sc sd se sf) = sa * se - sb * sd"

fun invert :: "affine \<Rightarrow> error + affine" where
  "invert (Affine sa sb sc sd se sf) =
     (if determinant (Affine sa sb sc sd se sf) = 0 then Inl TransformNotInvertibleError
      else
        let idet = 1 / determinant (Affine sa sb sc sd se sf);
            ra = se * idet;
            rb = - sb * idet;
            rd = - sd * idet;
            re = sa * idet
        in Inr (Affine ra rb (- sc * ra - sf * rb) rd re (- sc * rd - sf * re)))"

subsection \<open>Python's built-in round\<close>

text \<open>
  \<^verbatim>\<open>round(x)\<close> on a float rounds to the nearest integer, a tie going to the even one.
  Over the reals a tie is an exact half; a double that the program computes next to a
  half (2.5000000000000004) is no tie for the program and rounds away from it.
\<close>

definition py_round :: "real \<Rightarrow> int" where
  "py_round x =
     (let fl = \<lfloor>x\<rfloor>; d = x - of_int fl
      in if d < 1 / 2 then fl
         else if 1 / 2 < d then fl + 1
         else if even fl then fl else fl + 1)"

subsection \<open>Rasters\<close>

text \<open>
  An opened dataset: its dimensions, its pixel-to-world transform, its coordinate
  reference string and its bands, each a row-major array.
\<close>

record raster =
  height :: nat
  width :: nat
  transform :: affine
  crs :: string
  bands :: "real list list list"

text \<open>
  What rasterio guarantees of an opened dataset that the data model asks to have at
  least three channels: every band read full-frame has shape \<open>(height, width)\<close>.
\<close>

definition raster_ok :: "raster \<Rightarrow> bool" where
  "raster_ok ds \<longleftrightarrow>
     3 \<le> length (bands ds) \<and>
     (\<forall>band \<in> set (bands ds).
        length band = height ds \<and> (\<forall>line \<in> set band. length line = width ds))"

text \<open>\<^verbatim>\<open>dataset.read(k)\<close>: bands are numbered from 1; an absent band raises IndexError.\<close>

definition read :: "raster \<Rightarrow> nat \<Rightarrow> error + real list list" where
  "read ds k =
     (if 1 \<le> k \<and> k \<le> length (bands ds) then Inr (bands ds ! (k - 1)) else Inl IndexError)"

text \<open>
  numpy's \<^verbatim>\<open>arr[i, j]\<close> on a 2-D array: each index may be negative, counting from the
  end of its axis, and raises IndexError out of range.
\<close>

definition np_axis :: "nat \<Rightarrow> int \<Rightarrow> error + nat" where
  "np_axis n i =
     (if - int n \<le> i \<and> i < int n then Inr (nat (if i < 0 then i + int n else i))
      else Inl IndexError)"

definition np_index :: "real list list \<Rightarrow> int \<Rightarrow> int \<Rightarrow> error + real" where
  "np_index arr i j =
     (case np_axis (length arr) i of
        Inl err \<Rightarrow> Inl err
      | Inr i' \<Rightarrow>
          (case np_axis (length (arr ! i')) j of
             Inl err \<Rightarrow> Inl err
           | Inr j' \<Rightarrow> Inr (arr ! i' ! j')))"

text \<open>
  \<^verbatim>\<open>rasterio.windows.bounds(Window(0, 0, width, height), transform)\<close>: the corners
  \<open>(col_min, row_max)\<close> and \<open>(col_max, row_min)\<close> of the window under the transform,
  as \<open>(left, bottom, right, top)\<close>.
\<close>

definition window_bounds :: "nat \<Rightarrow> nat \<Rightarrow> affine \<Rightarrow> real \<times> real \<times> real \<times> real" where
  "window_bounds w h tr =
     (let (left, bottom) = affine_apply tr (0, real h);
          (right, top) = affine_apply tr (real w, 0)
      in (left, bottom, right, top))"

subsection \<open>Ground-truth rows and sample records\<close>

record gt_row =
  Longitude :: real
  Latitude :: real
  Chlorophyll :: "real option"
  Plant_health :: "string option"

text \<open>A row after the columns \<^verbatim>\<open>UTM_X\<close> and \<^verbatim>\<open>UTM_Y\<close> have been added.\<close>

record utm_row = gt_row +
  UTM_X :: real
  UTM_Y :: real

record sample =
  Date :: string
  Pixel_Row :: int
  Pixel_Col :: int
  Red :: real
  Green :: real
  Blue :: real
  Sample_Chlorophyll :: "real option"
  Plant_Health :: "string option"

subsection \<open>The environment of a run\<close>

text \<open>
  \<open>rasters\<close> is \<^verbatim>\<open>rasterio.open\<close> (no entry: the file is missing or unreadable),
  \<open>tables\<close> is \<^verbatim>\<open>pd.read_csv\<close> followed by the stripping of the column names,
  \<open>from_crs\<close> is \<^verbatim>\<open>Transformer.from_crs("EPSG:4326", crs, always_xy=True).transform\<close>
  and \<open>path_join\<close> is \<^verbatim>\<open>os.path.join\<close>.
\<close>

record env =
  rasters :: "string \<rightharpoonup> raster"
  tables :: "string \<rightharpoonup> gt_row list"
  from_crs :: "string \<Rightarrow> real \<times> real \<Rightarrow> real \<times> real"
  path_join :: "string \<Rightarrow> string \<Rightarrow> string"

subsection \<open>adjust_transform_for_zoom\<close>

definition adjust_transform_for_zoom :: "affine \<Rightarrow> real \<Rightarrow> affine" where
  "adjust_transform_for_zoom tr zoom_factor =
     (if zoom_factor = 1 then tr else affine_mul tr (scale zoom_factor))"

subsection \<open>process_geotiff_and_gt\<close>

definition add_utm :: "(real \<times> real \<Rightarrow> real \<times> real) \<Rightarrow> gt_row \<Rightarrow> utm_row" where
  "add_utm transformer r =
     (let (x, y) = transformer (Longitude r, Latitude r)
      in gt_row.extend r (utm_row.fields x y))"

definition in_bounds :: "real \<times> real \<times> real \<times> real \<Rightarrow> real \<Rightarrow> real \<Rightarrow> bool" where
  "in_bounds adjusted_bounds utm_x utm_y =
     (case adjusted_bounds of (b0, b1, b2, b3) \<Rightarrow>
        b0 \<le> utm_x \<and> utm_x \<le> b2 \<and> b1 \<le> utm_y \<and> utm_y \<le> b3)"

text \<open>
  Lines 65 and 66: the inverse transform applied to the point, its first component
  bound to \<^verbatim>\<open>pixel_row\<close> and its second to \<^verbatim>\<open>pixel_col\<close>, each rounded.
\<close>

definition fractional_pixel :: "affine \<Rightarrow> real \<Rightarrow> real \<Rightarrow> error + real \<times> real" where
  "fractional_pixel tr utm_x utm_y =
     (case invert tr of
        Inl err \<Rightarrow> Inl err
      | Inr inverse_tr \<Rightarrow> Inr (affine_apply inverse_tr (utm_x, utm_y)))"

definition pixel_of :: "affine \<Rightarrow> real \<Rightarrow> real \<Rightarrow> error + int \<times> int" where
  "pixel_of tr utm_x utm_y =
     (case fractional_pixel tr utm_x utm_y of
        Inl err \<Rightarrow> Inl err
      | Inr (pixel_row, pixel_col) \<Rightarrow> Inr (py_round pixel_row, py_round pixel_col))"

definition in_dimensions :: "raster \<Rightarrow> int \<Rightarrow> int \<Rightarrow> bool" where
  "in_dimensions ds pixel_row pixel_col \<longleftrightarrow>
     0 \<le> pixel_row \<and> pixel_row < int (height ds) \<and>
     0 \<le> pixel_col \<and> pixel_col < int (width ds)"

text \<open>Lines 72 to 74: the three band reads, the first failure leaving the try block.\<close>

definition sample_rgb :: "raster \<Rightarrow> int \<Rightarrow> int \<Rightarrow> error + real \<times> real \<times> real" where
  "sample_rgb ds pixel_row pixel_col =
     (case read ds 1 of Inl err \<Rightarrow> Inl err | Inr band1 \<Rightarrow>
     (case np_index band1 pixel_row pixel_col of Inl err \<Rightarrow> Inl err | Inr red \<Rightarrow>
     (case read ds 2 of Inl err \<Rightarrow> Inl err | Inr band2 \<Rightarrow>
     (case np_index band2 pixel_row pixel_col of Inl err \<Rightarrow> Inl err | Inr green \<Rightarrow>
     (case read ds 3 of Inl err \<Rightarrow> Inl err | Inr band3 \<Rightarrow>
     (case np_index band3 pixel_row pixel_col of Inl err \<Rightarrow> Inl err | Inr blue \<Rightarrow>
        Inr (red, green, blue)))))))"

definition make_sample :: "string \<Rightarrow> int \<Rightarrow> int \<Rightarrow> real \<times> real \<times> real \<Rightarrow> utm_row \<Rightarrow> sample" where
  "make_sample date pixel_row pixel_col rgb row =
     (case rgb of (red, green, blue) \<Rightarrow>
        \<lparr>Date = date, Pixel_Row = pixel_row, Pixel_Col = pixel_col,
         Red = red, Green = green, Blue = blue,
         Sample_Chlorophyll = Chlorophyll row, Plant_Health = Plant_health row\<rparr>)"

text \<open>
  The loop of lines 55 to 90 over the rows, \<open>training_data\<close> being the list appended
  to. An exception other than the IndexError caught at line 87 ends the loop.
\<close>

fun process_rows ::
  "raster \<Rightarrow> affine \<Rightarrow> real \<times> real \<times> real \<times> real \<Rightarrow> string \<Rightarrow> utm_row list \<Rightarrow>
   sample list \<Rightarrow> error + sample list" where
  "process_rows ds tr adjusted_bounds date [] training_data = Inr training_data"
| "process_rows ds tr adjusted_bounds date (row # rows) training_data =
     (if \<not> in_bounds adjusted_bounds (UTM_X row) (UTM_Y row)
      then process_rows ds tr adjusted_bounds date rows training_data
      else
        (case pixel_of tr (UTM_X row) (UTM_Y row) of
           Inl err \<Rightarrow> Inl err
         | Inr (pixel_row, pixel_col) \<Rightarrow>
             if in_dimensions ds pixel_row pixel_col
             then
               (case sample_rgb ds pixel_row pixel_col of
                  Inl err \<Rightarrow> process_rows ds tr adjusted_bounds date rows training_data
                | Inr rgb \<Rightarrow>
                    process_rows ds tr adjusted_bounds date rows
                      (training_data @ [make_sample date pixel_row pixel_col rgb row]))
             else process_rows ds tr adjusted_bounds date rows training_data))"

definition process_geotiff_and_gt ::
  "env \<Rightarrow> string \<Rightarrow> string \<Rightarrow> string \<Rightarrow> real \<Rightarrow> error + sample list" where
  "process_geotiff_and_gt ev geotiff_file gt_csv_file date zoom_factor =
     (case rasters ev geotiff_file of
        None \<Rightarrow> Inl RasterioIOError
      | Some ds \<Rightarrow>
          let tr = adjust_transform_for_zoom (transform ds) zoom_factor;
              adjusted_bounds = window_bounds (width ds) (height ds) tr
          in (case tables ev gt_csv_file of
                None \<Rightarrow> Inl FileNotFoundError
              | Some gt_data \<Rightarrow>
                  process_rows ds tr adjusted_bounds date
                    (map (add_utm (from_crs ev (crs ds))) gt_data) []))"

subsection \<open>create_training_dataset\<close>

text \<open>\<^verbatim>\<open>pd.concat(objs, ignore_index=True)\<close>: no object to concatenate raises ValueError.\<close>

definition pd_concat :: "sample list list \<Rightarrow> error + sample list" where
  "pd_concat objs = (if objs = [] then Inl ValueError else Inr (concat objs))"

fun collect_dates ::
  "env \<Rightarrow> string \<Rightarrow> string \<Rightarrow> real \<Rightarrow> string list \<Rightarrow> sample list list \<Rightarrow>
   error + sample list list" where
  "collect_dates ev geotiff_dir gt_csv_dir zoom_factor [] combined_data = Inr combined_data"
| "collect_dates ev geotiff_dir gt_csv_dir zoom_factor (date # dates) combined_data =
     (let geotiff_file = path_join ev geotiff_dir (date @ ''.tif'');
          gt_csv_file = path_join ev gt_csv_dir (date @ ''.csv'')
      in case process_geotiff_and_gt ev geotiff_file gt_csv_file date zoom_factor of
           Inl err \<Rightarrow> Inl err
         | Inr training_data \<Rightarrow>
             collect_dates ev geotiff_dir gt_csv_dir zoom_factor dates
               (combined_data @ [training_data]))"

definition create_training_dataset ::
  "env \<Rightarrow> string \<Rightarrow> string \<Rightarrow> string list \<Rightarrow> real \<Rightarrow> error + sample list" where
  "create_training_dataset ev geotiff_dir gt_csv_dir dates zoom_factor =
     (case collect_dates ev geotiff_dir gt_csv_dir zoom_factor dates [] of
        Inl err \<Rightarrow> Inl err
      | Inr combined_data \<Rightarrow> pd_concat combined_data)"

subsection \<open>Cleaning, lines 125 to 135\<close>

definition drop_zero_rgb :: "sample list \<Rightarrow> sample list" where
  "drop_zero_rgb t = filter (\<lambda>r. Red r \<noteq> 0 \<and> Green r \<noteq> 0 \<and> Blue r \<noteq> 0) t"

definition dropna_plant_health :: "sample list \<Rightarrow> sample list" where
  "dropna_plant_health t = filter (\<lambda>r. Plant_Health r \<noteq> None) t"

definition normalize_sample :: "sample \<Rightarrow> sample" where
  "normalize_sample r = r\<lparr>Red := Red r / 255, Green := Green r / 255, Blue := Blue r / 255\<rparr>"

definition normalize_rgb :: "sample list \<Rightarrow> sample list" where
  "normalize_rgb t = map normalize_sample t"

text \<open>
  A table assembled from no record at all has no column, and selecting its column
  \<^verbatim>\<open>Red\<close> at line 126 raises KeyError.
\<close>

definition clean_training_dataset :: "sample list \<Rightarrow> error + sample list" where
  "clean_training_dataset t =
     (if t = [] then Inl KeyError
      else Inr (normalize_rgb (dropna_plant_health (drop_zero_rgb t))))"

text \<open>Lines 119 to 140: the table that is written to the output file.\<close>

definition training_dataset ::
  "env \<Rightarrow> string \<Rightarrow> string \<Rightarrow> string list \<Rightarrow> real \<Rightarrow> error + sample list" where
  "training_dataset ev geotiff_dir gt_csv_dir dates zoom_factor =
     (case create_training_dataset ev geotiff_dir gt_csv_dir dates zoom_factor of
        Inl err \<Rightarrow> Inl err
      | Inr t \<Rightarrow> clean_training_dataset t)"


text \<open>The per-date call of the loop body, with the two paths built from the date.\<close>

abbreviation extracted :: "env \<Rightarrow> string \<Rightarrow> string \<Rightarrow> real \<Rightarrow> string \<Rightarrow> error + sample list" where
  "extracted ev geotiff_dir gt_csv_dir zoom_factor date \<equiv>
     process_geotiff_and_gt ev (path_join ev geotiff_dir (date @ ''.tif''))
       (path_join ev gt_csv_dir (date @ ''.csv'')) date zoom_factor"

section \<open>A worked run\<close>

text \<open>
  Two dates over 10 by 10 rasters whose transform \<open>Affine 1 0 0 0 (- 1) 10\<close> covers the
  world rectangle from \<open>(0, 0)\<close> to \<open>(10, 10)\<close>; the reprojection is the identity. The
  second raster has an all-zero third band. The first table holds a point inside the
  raster, a point at \<open>(- 1, - 1)\<close> and a point without labels.
\<close>

definition example_raster :: raster where
  "example_raster =
     \<lparr>height = 10, width = 10, transform = Affine 1 0 0 0 (- 1) 10, crs = ''EPSG:32611'',
      bands = [replicate 10 (replicate 10 10), replicate 10 (replicate 10 20),
               replicate 10 (replicate 10 30)]\<rparr>"

definition dark_raster :: raster where
  "dark_raster =
     \<lparr>height = 10, width = 10, transform = Affine 1 0 0 0 (- 1) 10, crs = ''EPSG:32611'',
      bands = [replicate 10 (replicate 10 10), replicate 10 (replicate 10 20),
               replicate 10 (replicate 10 0)]\<rparr>"

definition row_inside :: gt_row where
  "row_inside = \<lparr>Longitude = 27 / 5, Latitude = 27 / 5, Chlorophyll = Some 41,
                  Plant_health = Some ''Healthy''\<rparr>"

definition row_outside :: gt_row where
  "row_outside = \<lparr>Longitude = - 1, Latitude = - 1, Chlorophyll = Some 12,
                   Plant_health = Some ''Stressed''\<rparr>"

definition row_unlabelled :: gt_row where
  "row_unlabelled = \<lparr>Longitude = 11 / 5, Latitude = 33 / 10, Chlorophyll = None,
                      Plant_health = None\<rparr>"

definition first_run :: env where
  "first_run =
     \<lparr>rasters = [''tif/d1.tif'' \<mapsto> example_raster, ''tif/d2.tif'' \<mapsto> dark_raster],
      tables = [''csv/d1.csv'' \<mapsto> [row_inside, row_outside, row_unlabelled],
                ''csv/d2.csv'' \<mapsto> [row_inside]],
      from_crs = (\<lambda>target p. p),
      path_join = (\<lambda>dir name. dir @ ''/'' @ name)\<rparr>"

text \<open>
  A raster that is not square, 4 rows by 10 columns, covering the world rectangle from
  \<open>(0, 0)\<close> to \<open>(10, 4)\<close>, and a table with one point at \<open>(7.2, 2.2)\<close>, which lies
  in the pixel of row 2 and column 7.
\<close>

definition wide_raster :: raster where
  "wide_raster =
     \<lparr>height = 4, width = 10, transform = Affine 1 0 0 0 (- 1) 4, crs = ''EPSG:32611'',
      bands = [replicate 4 (replicate 10 10), replicate 4 (replicate 10 20),
               replicate 4 (replicate 10 30)]\<rparr>"

definition row_wide :: gt_row where
  "row_wide = \<lparr>Longitude = 36 / 5, Latitude = 11 / 5, Chlorophyll = Some 33,
                Plant_health = Some ''Healthy''\<rparr>"

definition wide_run :: env where
  "wide_run =
     \<lparr>rasters = [''tif/w.tif'' \<mapsto> wide_raster],
      tables = [''csv/w.csv'' \<mapsto> [row_wide]],
      from_crs = (\<lambda>target p. p),
      path_join = (\<lambda>dir name. dir @ ''/'' @ name)\<rparr>"

definition assembled_table :: "sample list" where
  "assembled_table =
     [\<lparr>Date = ''d1'', Pixel_Row = 5, Pixel_Col = 5, Red = 10, Green = 20, Blue = 30,
       Sample_Chlorophyll = Some 41, Plant_Health = Some ''Healthy''\<rparr>,
      \<lparr>Date = ''d1'', Pixel_Row = 2, Pixel_Col = 7, Red = 10, Green = 20, Blue = 30,
       Sample_Chlorophyll = None, Plant_Health = None\<rparr>,
      \<lparr>Date = ''d2'', Pixel_Row = 5, Pixel_Col = 5, Red = 10, Green = 20, Blue = 0,
       Sample_Chlorophyll = Some 41, Plant_Health = Some ''Healthy''\<rparr>]"

definition cleaned_table :: "sample list" where
  "cleaned_table =
     [\<lparr>Date = ''d1'', Pixel_Row = 5, Pixel_Col = 5, Red = 2 / 51, Green = 4 / 51, Blue = 2 / 17,
       Sample_Chlorophyll = Some 41, Plant_Health = Some ''Healthy''\<rparr>]"

section \<open>Properties\<close>

subsection \<open>Evaluating the worked run\<close>

lemma add_utm_simps:
  "UTM_X (add_utm f r) = fst (f (Longitude r, Latitude r))"
  "UTM_Y (add_utm f r) = snd (f (Longitude r, Latitude r))"
  "Chlorophyll (add_utm f r) = Chlorophyll r"
  "Plant_health (add_utm f r) = Plant_health r"
  by (simp_all add: add_utm_def gt_row.defs utm_row.defs split: prod.splits)

lemmas fixture_defs = first_run_def wide_run_def row_inside_def row_outside_def
  row_unlabelled_def row_wide_def example_raster_def dark_raster_def wide_raster_def

lemmas run_defs = process_geotiff_and_gt_def
  window_bounds_def sample_rgb_def read_def np_index_def np_axis_def
  add_utm_simps in_bounds_def pixel_of_def fractional_pixel_def py_round_def
  in_dimensions_def make_sample_def adjust_transform_for_zoom_def Let_def

lemma first_run_assembled:
  "create_training_dataset first_run ''tif'' ''csv'' [''d1'', ''d2''] 1 = Inr assembled_table"
  by (simp add: create_training_dataset_def pd_concat_def assembled_table_def fixture_defs run_defs)

lemma clean_assembled: "clean_training_dataset assembled_table = Inr cleaned_table"
  by (simp add: clean_training_dataset_def normalize_rgb_def normalize_sample_def
        dropna_plant_health_def drop_zero_rgb_def assembled_table_def cleaned_table_def)

lemma first_run_cleaned:
  "training_dataset first_run ''tif'' ''csv'' [''d1'', ''d2''] 1 = Inr cleaned_table"
  by (simp add: training_dataset_def first_run_assembled clean_assembled)

subsection \<open>The transform adjuster\<close>

text \<open>
  C7. For every affine transform, the transform adjuster called with the zoom factor
  1.0 returns the transform it was given.
\<close>

theorem adjust_transform_for_zoom_identity:
  "adjust_transform_for_zoom tr 1 = tr"
  by (simp add: adjust_transform_for_zoom_def)

subsection \<open>Sampling\<close>

lemma np_index_in_shape:
  assumes "length arr = h" and "\<forall>line \<in> set arr. length line = w"
    and "0 \<le> i" "i < int h" "0 \<le> j" "j < int w"
  shows "np_index arr i j = Inr (arr ! nat i ! nat j)"
proof -
  have "nat i < length arr" using assms by simp
  then have "arr ! nat i \<in> set arr" by (rule nth_mem)
  then have "length (arr ! nat i) = w" using assms(2) by blast
  then show ?thesis using assms by (simp add: np_index_def np_axis_def)
qed

lemma read_ok:
  "raster_ok ds \<Longrightarrow> 1 \<le> k \<Longrightarrow> k \<le> 3 \<Longrightarrow> read ds k = Inr (bands ds ! (k - 1))"
  by (simp add: read_def raster_ok_def)

lemma band_shape:
  assumes "raster_ok ds" "k < 3"
  shows "length (bands ds ! k) = height ds \<and> (\<forall>line \<in> set (bands ds ! k). length line = width ds)"
proof -
  have "k < length (bands ds)" using assms by (simp add: raster_ok_def)
  then have "bands ds ! k \<in> set (bands ds)" by (rule nth_mem)
  then show ?thesis using assms(1) by (simp add: raster_ok_def)
qed

lemma np_index_band:
  assumes "raster_ok ds" "k < 3" "in_dimensions ds pixel_row pixel_col"
  shows "np_index (bands ds ! k) pixel_row pixel_col =
           Inr (bands ds ! k ! nat pixel_row ! nat pixel_col)"
  using band_shape [OF assms(1,2)] assms(3)
  by (intro np_index_in_shape [where h = "height ds" and w = "width ds"])
     (simp_all add: in_dimensions_def)

lemma sample_rgb_in_dimensions:
  assumes "raster_ok ds" "in_dimensions ds pixel_row pixel_col"
  shows "sample_rgb ds pixel_row pixel_col =
           Inr (bands ds ! 0 ! nat pixel_row ! nat pixel_col,
                bands ds ! 1 ! nat pixel_row ! nat pixel_col,
                bands ds ! 2 ! nat pixel_row ! nat pixel_col)"
  using np_index_band [OF assms(1) _ assms(2), of 0]
        np_index_band [OF assms(1) _ assms(2), of 1]
        np_index_band [OF assms(1) _ assms(2), of 2]
        read_ok [OF assms(1), of 1] read_ok [OF assms(1), of 2] read_ok [OF assms(1), of 3]
  by (simp add: sample_rgb_def)

text \<open>
  C9. On a raster whose three bands have the shape (height, width), for every pixel
  that passes the dimension check (row in [0, height), col in [0, width)), each of the
  three band reads and each of the three array indexings succeeds, so the sampling
  returns the three channel values and the branch that catches IndexError is not
  taken.
\<close>

theorem sample_rgb_never_fails_in_dimensions:
  assumes "raster_ok ds"
    and "0 \<le> pixel_row" "pixel_row < int (height ds)"
    and "0 \<le> pixel_col" "pixel_col < int (width ds)"
  shows "\<exists>band1 band2 band3.
           read ds 1 = Inr band1 \<and> read ds 2 = Inr band2 \<and> read ds 3 = Inr band3 \<and>
           np_index band1 pixel_row pixel_col = Inr (band1 ! nat pixel_row ! nat pixel_col) \<and>
           np_index band2 pixel_row pixel_col = Inr (band2 ! nat pixel_row ! nat pixel_col) \<and>
           np_index band3 pixel_row pixel_col = Inr (band3 ! nat pixel_row ! nat pixel_col) \<and>
           sample_rgb ds pixel_row pixel_col =
             Inr (band1 ! nat pixel_row ! nat pixel_col,
                  band2 ! nat pixel_row ! nat pixel_col,
                  band3 ! nat pixel_row ! nat pixel_col)"
proof -
  have dims: "in_dimensions ds pixel_row pixel_col"
    using assms(2-5) by (simp add: in_dimensions_def)
  show ?thesis
    using read_ok [OF assms(1), of 1] read_ok [OF assms(1), of 2] read_ok [OF assms(1), of 3]
      np_index_band [OF assms(1) _ dims, of 0] np_index_band [OF assms(1) _ dims, of 1]
      np_index_band [OF assms(1) _ dims, of 2] sample_rgb_in_dimensions [OF assms(1) dims]
    by simp
qed

theorem sample_rgb_never_fails_in_dimensions_witness:
  "sample_rgb example_raster 2 7 = Inr (10, 20, 30)"
  using sample_rgb_never_fails_in_dimensions [of example_raster 2 7]
  by (auto simp add: example_raster_def raster_ok_def read_def)

subsection \<open>The pixel mapping\<close>

text \<open>
  C2. The claim takes the pixel row from the 4.6 component (the one computed from Y)
  and the pixel column from the 5.4 component (the one computed from X). Line 65 does
  the opposite: the inverse of \<open>Affine 1 0 0 0 (- 1) 10\<close> sends \<open>(x, y)\<close> to
  \<open>(x, 10 - y)\<close>, and the first component, computed from X, is bound to
  \<^verbatim>\<open>pixel_row\<close>. At (5.4, 5.4) the fractional pair is (5.4, 4.6), so the row is
  round(5.4) and the column round(4.6); both round to 5 and the swap does not show.
  At (2.2, 3.3) it shows: the record carries row 2 and column 7, where the claim's
  convention gives row round(6.7) = 7 and column round(2.2) = 2.
\<close>

theorem pixel_of_takes_row_from_x:
  "fractional_pixel (Affine 1 0 0 0 (- 1) 10) x y = Inr (x, 10 - y) \<and>
   fractional_pixel (Affine 1 0 0 0 (- 1) 10) (27 / 5) (27 / 5) = Inr (27 / 5, 23 / 5) \<and>
   pixel_of (Affine 1 0 0 0 (- 1) 10) (27 / 5) (27 / 5) = Inr (5, 5) \<and>
   pixel_of (Affine 1 0 0 0 (- 1) 10) (11 / 5) (33 / 10) = Inr (2, 7) \<and>
   process_geotiff_and_gt
     (first_run\<lparr>tables := (tables first_run)(''csv/d1.csv'' \<mapsto> [row_unlabelled])\<rparr>)
     ''tif/d1.tif'' ''csv/d1.csv'' ''d1'' 1 =
     Inr [\<lparr>Date = ''d1'', Pixel_Row = 2, Pixel_Col = 7, Red = 10, Green = 20, Blue = 30,
           Sample_Chlorophyll = None, Plant_Health = None\<rparr>]"
  by (simp add: fixture_defs run_defs)

subsection \<open>The loop over the rows\<close>

lemma process_rows_acc:
  "process_rows ds tr b date rows acc =
     (case process_rows ds tr b date rows [] of Inl err \<Rightarrow> Inl err | Inr out \<Rightarrow> Inr (acc @ out))"
proof (induction rows arbitrary: acc)
  case Nil
  show ?case by simp
next
  case (Cons row rows)
  note IH = Cons.IH
  show ?case
    by (simp add: IH [of acc] IH [of "acc @ [x]" for x] IH [of "[x]" for x]
             split: sum.splits prod.splits)
qed

lemma process_rows_append:
  "process_rows ds tr b date (xs @ ys) acc =
     (case process_rows ds tr b date xs acc of
        Inl err \<Rightarrow> Inl err
      | Inr acc' \<Rightarrow> process_rows ds tr b date ys acc')"
  by (induction xs arbitrary: acc) (auto split: sum.splits prod.splits)

lemma process_rows_returns:
  assumes "invert tr = Inr inverse_tr"
  shows "\<exists>out. process_rows ds tr b date rows acc = Inr out"
proof (induction rows arbitrary: acc)
  case Nil
  show ?case by simp
next
  case (Cons row rows)
  then show ?case using assms
    by (auto simp: pixel_of_def fractional_pixel_def split: sum.splits prod.splits)
qed

lemma process_rows_skip:
  assumes "\<not> in_bounds b (UTM_X row) (UTM_Y row)"
  shows "process_rows ds tr b date (pre @ row # post) acc =
         process_rows ds tr b date (pre @ post) acc"
  using assms by (simp add: process_rows_append split: sum.splits)

lemma process_rows_emit:
  assumes "raster_ok ds" "in_bounds b (UTM_X row) (UTM_Y row)"
    and "pixel_of tr (UTM_X row) (UTM_Y row) = Inr (pixel_row, pixel_col)"
    and "in_dimensions ds pixel_row pixel_col"
  shows "\<exists>out_pre rgb out_post.
           process_rows ds tr b date pre [] = Inr out_pre \<and>
           process_rows ds tr b date post [] = Inr out_post \<and>
           process_rows ds tr b date (pre @ row # post) [] =
             Inr (out_pre @ make_sample date pixel_row pixel_col rgb row # out_post)"
proof -
  from assms(3) obtain inverse_tr where inv: "invert tr = Inr inverse_tr"
    by (auto simp: pixel_of_def fractional_pixel_def split: sum.splits)
  from process_rows_returns [OF inv] obtain out_pre where
    pre: "process_rows ds tr b date pre [] = Inr out_pre" by blast
  from process_rows_returns [OF inv] obtain out_post where
    post: "process_rows ds tr b date post [] = Inr out_post" by blast
  from sample_rgb_in_dimensions [OF assms(1,4)] obtain rgb where
    rgb: "sample_rgb ds pixel_row pixel_col = Inr rgb" by blast
  have "process_rows ds tr b date (pre @ row # post) [] =
          process_rows ds tr b date post (out_pre @ [make_sample date pixel_row pixel_col rgb row])"
    using assms(2,3,4) pre rgb by (simp add: process_rows_append)
  also have "\<dots> = Inr ((out_pre @ [make_sample date pixel_row pixel_col rgb row]) @ out_post)"
    by (subst process_rows_acc) (simp add: post)
  finally have "process_rows ds tr b date (pre @ row # post) [] =
      Inr (out_pre @ make_sample date pixel_row pixel_col rgb row # out_post)"
    by simp
  with pre post show ?thesis by blast
qed

subsection \<open>The per-date extractor\<close>

lemma process_geotiff_and_gt_rows:
  assumes "rasters ev geotiff_file = Some ds" and "tables ev gt_csv_file = Some gt_data"
  shows "process_geotiff_and_gt ev geotiff_file gt_csv_file date zoom_factor =
           process_rows ds (adjust_transform_for_zoom (transform ds) zoom_factor)
             (window_bounds (width ds) (height ds)
                (adjust_transform_for_zoom (transform ds) zoom_factor))
             date (map (add_utm (from_crs ev (crs ds))) gt_data) []"
  using assms by (simp add: process_geotiff_and_gt_def Let_def)

lemma process_geotiff_and_gt_table:
  assumes "rasters ev geotiff_file = Some ds"
  shows "process_geotiff_and_gt (ev\<lparr>tables := (tables ev)(gt_csv_file \<mapsto> gt_data)\<rparr>)
           geotiff_file gt_csv_file date zoom_factor =
           process_rows ds (adjust_transform_for_zoom (transform ds) zoom_factor)
             (window_bounds (width ds) (height ds)
                (adjust_transform_for_zoom (transform ds) zoom_factor))
             date (map (add_utm (from_crs ev (crs ds))) gt_data) []"
  using assms by (simp add: process_geotiff_and_gt_def Let_def)

text \<open>
  C3. A ground-truth row whose projected X lies outside [min-x, max-x] or whose
  projected Y lies outside [min-y, max-y] of the adjusted bounds is skipped: the
  extractor returns what it returns on the table without that row. In the worked run
  the point at (- 1, - 1), against the bounds (0, 0) to (10, 10), leaves no record.
\<close>

theorem process_geotiff_and_gt_skips_out_of_bounds:
  assumes "rasters ev geotiff_file = Some ds"
    and "tables ev gt_csv_file = Some (pre @ r # post)"
    and "from_crs ev (crs ds) (Longitude r, Latitude r) = (x, y)"
    and "window_bounds (width ds) (height ds)
           (adjust_transform_for_zoom (transform ds) zoom_factor) = (min_x, min_y, max_x, max_y)"
    and "x < min_x \<or> max_x < x \<or> y < min_y \<or> max_y < y"
  shows "process_geotiff_and_gt ev geotiff_file gt_csv_file date zoom_factor =
         process_geotiff_and_gt (ev\<lparr>tables := (tables ev)(gt_csv_file \<mapsto> pre @ post)\<rparr>)
           geotiff_file gt_csv_file date zoom_factor"
proof -
  let ?row = "add_utm (from_crs ev (crs ds)) r"
  let ?b = "window_bounds (width ds) (height ds)
              (adjust_transform_for_zoom (transform ds) zoom_factor)"
  have "\<not> in_bounds ?b (UTM_X ?row) (UTM_Y ?row)"
    using assms(3,4,5) by (auto simp: in_bounds_def add_utm_simps)
  then show ?thesis
    unfolding process_geotiff_and_gt_rows [OF assms(1,2)] process_geotiff_and_gt_table [OF assms(1)]
    using process_rows_skip [where row = ?row and b = ?b] by simp
qed

theorem process_geotiff_and_gt_skips_out_of_bounds_witness:
  "process_geotiff_and_gt first_run ''tif/d1.tif'' ''csv/d1.csv'' ''d1'' 1 =
     Inr [\<lparr>Date = ''d1'', Pixel_Row = 5, Pixel_Col = 5, Red = 10, Green = 20, Blue = 30,
           Sample_Chlorophyll = Some 41, Plant_Health = Some ''Healthy''\<rparr>,
          \<lparr>Date = ''d1'', Pixel_Row = 2, Pixel_Col = 7, Red = 10, Green = 20, Blue = 30,
           Sample_Chlorophyll = None, Plant_Health = None\<rparr>]"
proof -
  have "process_geotiff_and_gt first_run ''tif/d1.tif'' ''csv/d1.csv'' ''d1'' 1 =
        process_geotiff_and_gt
          (first_run\<lparr>tables :=
             (tables first_run)(''csv/d1.csv'' \<mapsto> [row_inside] @ [row_unlabelled])\<rparr>)
          ''tif/d1.tif'' ''csv/d1.csv'' ''d1'' 1"
    by (rule process_geotiff_and_gt_skips_out_of_bounds
          [where ds = example_raster and r = row_outside and x = "- 1" and y = "- 1"
             and min_x = 0 and min_y = 0 and max_x = 10 and max_y = 10])
       (simp_all add: fixture_defs window_bounds_def adjust_transform_for_zoom_def)
  also have "\<dots> =
     Inr [\<lparr>Date = ''d1'', Pixel_Row = 5, Pixel_Col = 5, Red = 10, Green = 20, Blue = 30,
           Sample_Chlorophyll = Some 41, Plant_Health = Some ''Healthy''\<rparr>,
          \<lparr>Date = ''d1'', Pixel_Row = 2, Pixel_Col = 7, Red = 10, Green = 20, Blue = 30,
           Sample_Chlorophyll = None, Plant_Health = None\<rparr>]"
    by (simp add: fixture_defs run_defs)
  finally show ?thesis .
qed

text \<open>
  What the loop does when its own two tests pass, on a raster with three bands of the
  shape (height, width): the row gets exactly one record, between the records of the
  rows before it and of the rows after it, with the date label and the row's label
  fields unchanged. The pixel is the one of lines 65 and 66, whose \<^verbatim>\<open>pixel_row\<close> is
  computed from X.
\<close>

lemma process_geotiff_and_gt_appends_when_tests_pass:
  assumes "rasters ev geotiff_file = Some ds" and "raster_ok ds"
    and "tables ev gt_csv_file = Some (pre @ r # post)"
    and "from_crs ev (crs ds) (Longitude r, Latitude r) = (x, y)"
    and "window_bounds (width ds) (height ds)
           (adjust_transform_for_zoom (transform ds) zoom_factor) = (min_x, min_y, max_x, max_y)"
    and "min_x < x" "x < max_x" "min_y < y" "y < max_y"
    and "pixel_of (adjust_transform_for_zoom (transform ds) zoom_factor) x y =
           Inr (pixel_row, pixel_col)"
    and "0 \<le> pixel_row" "pixel_row < int (height ds)"
    and "0 \<le> pixel_col" "pixel_col < int (width ds)"
  shows "\<exists>out_pre emitted out_post.
           process_geotiff_and_gt ev geotiff_file gt_csv_file date zoom_factor =
             Inr (out_pre @ emitted # out_post) \<and>
           process_geotiff_and_gt (ev\<lparr>tables := (tables ev)(gt_csv_file \<mapsto> pre)\<rparr>)
             geotiff_file gt_csv_file date zoom_factor = Inr out_pre \<and>
           process_geotiff_and_gt (ev\<lparr>tables := (tables ev)(gt_csv_file \<mapsto> post)\<rparr>)
             geotiff_file gt_csv_file date zoom_factor = Inr out_post \<and>
           Date emitted = date \<and> Pixel_Row emitted = pixel_row \<and>
           Pixel_Col emitted = pixel_col \<and>
           Sample_Chlorophyll emitted = Chlorophyll r \<and> Plant_Health emitted = Plant_health r"
proof -
  let ?row = "add_utm (from_crs ev (crs ds)) r"
  let ?tr = "adjust_transform_for_zoom (transform ds) zoom_factor"
  let ?b = "window_bounds (width ds) (height ds) ?tr"
  let ?f = "add_utm (from_crs ev (crs ds))"
  have xy: "UTM_X ?row = x" "UTM_Y ?row = y"
    using assms(4) by (simp_all add: add_utm_simps)
  have inb: "in_bounds ?b (UTM_X ?row) (UTM_Y ?row)"
    using assms(5-9) xy by (simp add: in_bounds_def)
  have pix: "pixel_of ?tr (UTM_X ?row) (UTM_Y ?row) = Inr (pixel_row, pixel_col)"
    using assms(10) xy by simp
  have dims: "in_dimensions ds pixel_row pixel_col"
    using assms(11-14) by (simp add: in_dimensions_def)
  from process_rows_emit [OF assms(2) inb pix dims, of date "map ?f pre" "map ?f post"]
  obtain out_pre rgb out_post where
    pre: "process_rows ds ?tr ?b date (map ?f pre) [] = Inr out_pre" and
    post: "process_rows ds ?tr ?b date (map ?f post) [] = Inr out_post" and
    all: "process_rows ds ?tr ?b date (map ?f pre @ ?row # map ?f post) [] =
            Inr (out_pre @ make_sample date pixel_row pixel_col rgb ?row # out_post)"
    by blast
  let ?emitted = "make_sample date pixel_row pixel_col rgb ?row"
  have "process_geotiff_and_gt ev geotiff_file gt_csv_file date zoom_factor =
          Inr (out_pre @ ?emitted # out_post)"
    unfolding process_geotiff_and_gt_rows [OF assms(1,3)] using all by simp
  moreover have "process_geotiff_and_gt (ev\<lparr>tables := (tables ev)(gt_csv_file \<mapsto> pre)\<rparr>)
             geotiff_file gt_csv_file date zoom_factor = Inr out_pre"
    unfolding process_geotiff_and_gt_table [OF assms(1)] by (rule pre)
  moreover have "process_geotiff_and_gt (ev\<lparr>tables := (tables ev)(gt_csv_file \<mapsto> post)\<rparr>)
             geotiff_file gt_csv_file date zoom_factor = Inr out_post"
    unfolding process_geotiff_and_gt_table [OF assms(1)] by (rule post)
  moreover have "Date ?emitted = date \<and> Pixel_Row ?emitted = pixel_row \<and>
      Pixel_Col ?emitted = pixel_col \<and> Sample_Chlorophyll ?emitted = Chlorophyll r \<and>
      Plant_Health ?emitted = Plant_health r"
    by (simp add: make_sample_def add_utm_simps split: prod.splits)
  ultimately show ?thesis by blast
qed

text \<open>
  C1. A ground-truth row whose projected coordinate lies strictly inside the adjusted
  bounds and whose rounded pixel lies inside the dimensions, row in [0, height) and col
  in [0, width), must get exactly one record. The extractor does not do so on a raster
  that is not square. In the 4 by 10 raster the point (7.2, 2.2) lies strictly inside
  the bounds (0, 0) to (10, 4); the inverse transform sends it to (7.2, 1.8), so its
  pixel is row round(1.8) = 2 and column round(7.2) = 7, inside the dimensions, and
  the three bands can be sampled there. Line 65 binds the pair the other way round, to
  row 7 and column 2; the test of line 69 compares 7 with the height 4 and fails, and
  the extractor returns an empty table.
\<close>

theorem process_geotiff_and_gt_drops_point_inside_wide_raster:
  "window_bounds (width wide_raster) (height wide_raster)
     (adjust_transform_for_zoom (transform wide_raster) 1) = (0, 0, 10, 4) \<and>
   fractional_pixel (Affine 1 0 0 0 (- 1) 4) (36 / 5) (11 / 5) = Inr (36 / 5, 9 / 5) \<and>
   py_round (9 / 5) = 2 \<and> py_round (36 / 5) = 7 \<and>
   in_dimensions wide_raster 2 7 \<and>
   sample_rgb wide_raster 2 7 = Inr (10, 20, 30) \<and>
   pixel_of (Affine 1 0 0 0 (- 1) 4) (36 / 5) (11 / 5) = Inr (7, 2) \<and>
   \<not> in_dimensions wide_raster 7 2 \<and>
   process_geotiff_and_gt wide_run ''tif/w.tif'' ''csv/w.csv'' ''w'' 1 = Inr []"
  by (simp add: fixture_defs run_defs)

subsection \<open>The dataset assembler\<close>

lemma collect_dates_Inr:
  "collect_dates ev geotiff_dir gt_csv_dir zoom_factor dates combined_data = Inr out \<longleftrightarrow>
     (\<exists>tabs. list_all2 (\<lambda>date t. extracted ev geotiff_dir gt_csv_dir zoom_factor date = Inr t)
               dates tabs \<and> out = combined_data @ tabs)"
proof (induction dates arbitrary: combined_data)
  case Nil
  show ?case by auto
next
  case (Cons date dates)
  show ?case
  proof (cases "extracted ev geotiff_dir gt_csv_dir zoom_factor date")
    case (Inl err)
    then show ?thesis by (simp add: Let_def list_all2_Cons1)
  next
    case (Inr t)
    then show ?thesis
      by (simp add: Let_def list_all2_Cons1 Cons.IH) blast
  qed
qed

lemma collect_dates_start:
  "collect_dates ev geotiff_dir gt_csv_dir zoom_factor dates [] = Inr combined \<longleftrightarrow>
     list_all2 (\<lambda>date t. extracted ev geotiff_dir gt_csv_dir zoom_factor date = Inr t)
       dates combined"
  by (simp add: collect_dates_Inr)

lemma create_training_dataset_Inr:
  "create_training_dataset ev geotiff_dir gt_csv_dir dates zoom_factor = Inr out \<longleftrightarrow>
     (\<exists>combined. collect_dates ev geotiff_dir gt_csv_dir zoom_factor dates [] = Inr combined \<and>
        combined \<noteq> [] \<and> out = concat combined)"
  by (cases "collect_dates ev geotiff_dir gt_csv_dir zoom_factor dates []")
     (auto simp: create_training_dataset_def pd_concat_def)

text \<open>
  C6. The assembler returns a table exactly when the date list is not empty and every
  date's extraction returns one; the table is then the concatenation of the per-date
  tables, one for each entry of the date list and in the order of the list, each kept
  whole and in its own row order. No date is dropped or added, and nothing is
  deduplicated across dates.
\<close>

theorem create_training_dataset_concatenates_in_order:
  "create_training_dataset ev geotiff_dir gt_csv_dir dates zoom_factor = Inr out \<longleftrightarrow>
     dates \<noteq> [] \<and>
     (\<exists>tabs. list_all2 (\<lambda>date t. extracted ev geotiff_dir gt_csv_dir zoom_factor date = Inr t)
               dates tabs \<and> out = concat tabs)"
proof -
  have len: "tabs \<noteq> [] \<longleftrightarrow> dates \<noteq> []"
    if "list_all2 (\<lambda>date t. extracted ev geotiff_dir gt_csv_dir zoom_factor date = Inr t) dates tabs"
    for tabs
    using list_all2_lengthD [OF that] by (cases dates; cases tabs) simp_all
  show ?thesis
    unfolding create_training_dataset_Inr collect_dates_start
    using len by blast
qed

theorem create_training_dataset_concatenates_in_order_witness:
  "create_training_dataset first_run ''tif'' ''csv'' [''d1'', ''d2''] 1 =
     Inr (concat [take 2 assembled_table, drop 2 assembled_table])"
proof -
  have "list_all2 (\<lambda>date t. extracted first_run ''tif'' ''csv'' 1 date = Inr t)
          [''d1'', ''d2''] [take 2 assembled_table, drop 2 assembled_table]"
    by (simp add: assembled_table_def fixture_defs run_defs)
  then show ?thesis
    using create_training_dataset_concatenates_in_order
      [of first_run "''tif''" "''csv''" "[''d1'', ''d2'']" 1
          "concat [take 2 assembled_table, drop 2 assembled_table]"]
    by blast
qed

text \<open>
  C10. On an empty date list the assembler does not return an empty table: the
  concatenation of no table raises ValueError.
\<close>

theorem create_training_dataset_empty_dates:
  "create_training_dataset ev geotiff_dir gt_csv_dir [] zoom_factor = Inl ValueError \<and>
   create_training_dataset ev geotiff_dir gt_csv_dir [] zoom_factor \<noteq> Inr []"
  by (simp add: create_training_dataset_def pd_concat_def)

subsection \<open>Cleaning\<close>

lemma normalize_sample_simps:
  "Red (normalize_sample r) = Red r / 255"
  "Green (normalize_sample r) = Green r / 255"
  "Blue (normalize_sample r) = Blue r / 255"
  "Plant_Health (normalize_sample r) = Plant_Health r"
  by (simp_all add: normalize_sample_def)

lemma clean_training_dataset_Inr:
  assumes "clean_training_dataset t = Inr out"
  shows "out = map normalize_sample
           (filter (\<lambda>r. Red r \<noteq> 0 \<and> Green r \<noteq> 0 \<and> Blue r \<noteq> 0 \<and> Plant_Health r \<noteq> None) t)"
  using assms
  by (auto simp: clean_training_dataset_def normalize_rgb_def dropna_plant_health_def
        drop_zero_rgb_def conj_commute conj_left_commute split: if_splits intro: filter_cong)

lemma training_dataset_Inr:
  assumes "training_dataset ev geotiff_dir gt_csv_dir dates zoom_factor = Inr out"
  shows "\<exists>t. create_training_dataset ev geotiff_dir gt_csv_dir dates zoom_factor = Inr t \<and>
             clean_training_dataset t = Inr out"
  using assms by (auto simp: training_dataset_def split: sum.splits)

text \<open>
  C4. In the table that is written out, no record has a channel value equal to zero
  and no record lacks its plant-health label: the table is the assembled one with
  every such record removed, the others kept in order with their channels divided by
  255.
\<close>

theorem training_dataset_no_zero_no_missing:
  assumes "training_dataset ev geotiff_dir gt_csv_dir dates zoom_factor = Inr out"
  shows "(\<forall>r \<in> set out. Red r \<noteq> 0 \<and> Green r \<noteq> 0 \<and> Blue r \<noteq> 0 \<and> Plant_Health r \<noteq> None) \<and>
         (\<exists>t. create_training_dataset ev geotiff_dir gt_csv_dir dates zoom_factor = Inr t \<and>
               out = map normalize_sample
                 (filter (\<lambda>r. Red r \<noteq> 0 \<and> Green r \<noteq> 0 \<and> Blue r \<noteq> 0 \<and> Plant_Health r \<noteq> None) t))"
proof -
  from training_dataset_Inr [OF assms] obtain t where
    t: "create_training_dataset ev geotiff_dir gt_csv_dir dates zoom_factor = Inr t" and
    c: "clean_training_dataset t = Inr out" by blast
  note out = clean_training_dataset_Inr [OF c]
  have "\<forall>r \<in> set out. Red r \<noteq> 0 \<and> Green r \<noteq> 0 \<and> Blue r \<noteq> 0 \<and> Plant_Health r \<noteq> None"
    unfolding out by (auto simp: normalize_sample_simps)
  with t out show ?thesis by blast
qed

theorem training_dataset_no_zero_no_missing_witness:
  "training_dataset first_run ''tif'' ''csv'' [''d1'', ''d2''] 1 = Inr cleaned_table \<and>
   list_all (\<lambda>r. Red r \<noteq> 0 \<and> Green r \<noteq> 0 \<and> Blue r \<noteq> 0 \<and> Plant_Health r \<noteq> None)
     cleaned_table"
  using training_dataset_no_zero_no_missing [OF first_run_cleaned] first_run_cleaned
  by (simp add: list_all_iff)



end
